theory Spec2Isabelle
  imports Main "HOL-Library.Word" "HOL-Library.Char_ord" "HOL-Library.List_Lexorder"
begin

section \<open>Vectorization service: bitmap to SVG\<close>

text \<open>
  A shallow embedding of \<^verbatim>\<open>backend/app/services/vectorization_service.py\<close>
  (class \<^verbatim>\<open>VectorizationService\<close>). Python exceptions are values of a sum type, the
  file system touched by the command-line backend is an explicit state, and the two
  tracers (the potrace process, the in-process tracer) and the scour library are
  parameters. What the service asks of the imaging library and of the XML library of
  the standard distribution is written out where a property depends on it.
\<close>

subsection \<open>Decimal rendering of Python integers\<close>

definition digit_char :: "nat \<Rightarrow> char" where
  "digit_char d = char_of (48 + d)"

fun str_nat :: "nat \<Rightarrow> string" where
  "str_nat n = (if n < 10 then [digit_char n] else str_nat (n div 10) @ [digit_char (n mod 10)])"

declare str_nat.simps [simp del]

subsection \<open>Images and the binarization step\<close>

text \<open>
  An image after \<^verbatim>\<open>img.convert('L')\<close>: its size and one 8-bit luminance per pixel, row by
  row. A mode \<^verbatim>\<open>'1'\<close> image of the imaging library has the same layout, each pixel
  stored as 0 (black) or 255 (white).
\<close>

record image =
  width :: nat
  height :: nat
  pixels :: "8 word list"

text \<open>\<^verbatim>\<open>Image.point(f)\<close>: the function is tabulated over \<^verbatim>\<open>range(256)\<close> and applied to
  every pixel.\<close>

definition point :: "(8 word \<Rightarrow> 8 word) \<Rightarrow> image \<Rightarrow> image" where
  "point f img = img\<lparr>pixels := map f (pixels img)\<rparr>"

text \<open>\<^verbatim>\<open>lambda x: 255 if x > threshold else 0\<close>; the threshold is a Python integer.\<close>

definition threshold_lut :: "int \<Rightarrow> 8 word \<Rightarrow> 8 word" where
  "threshold_lut threshold x = (if uint x > threshold then 255 else 0)"

text \<open>\<^verbatim>\<open>lambda x: 255 - x\<close>\<close>

definition invert_lut :: "8 word \<Rightarrow> 8 word" where
  "invert_lut x = 255 - x"

text \<open>Lines 83--87 and 122--126: the same four lines in both backends.\<close>

definition binarize :: "image \<Rightarrow> int \<Rightarrow> bool \<Rightarrow> image" where
  "binarize img_gray threshold invert =
     (let img_bw = point (threshold_lut threshold) img_gray
      in if invert then point invert_lut img_bw else img_bw)"

text \<open>The value one pixel of luminance \<open>x\<close> gets in \<^verbatim>\<open>img_bw\<close>.\<close>

definition bw_pixel :: "int \<Rightarrow> bool \<Rightarrow> 8 word \<Rightarrow> 8 word" where
  "bw_pixel threshold invert x =
     (if invert then invert_lut (threshold_lut threshold x) else threshold_lut threshold x)"



text \<open>
  \<^verbatim>\<open>np.array(img_bw, dtype=bool)\<close>: one boolean per pixel, true where the stored value is
  not zero. The in-process tracer treats the true cells as the filled region.
\<close>

definition np_array_bool :: "image \<Rightarrow> bool list" where
  "np_array_bool img = map (\<lambda>v. v \<noteq> 0) (pixels img)"

text \<open>
  \<^verbatim>\<open>img_bw.save(pbm_path)\<close>: a PBM file keeps the colours of the 1-bit image; its bit is
  1 for a black pixel (stored 0) and 0 for a white one. The potrace program traces the
  black pixels.
\<close>

definition pbm_bits :: "image \<Rightarrow> bool list" where
  "pbm_bits img = map (\<lambda>v. v = 0) (pixels img)"

definition pypotrace_bitmap :: "image \<Rightarrow> int \<Rightarrow> bool \<Rightarrow> bool list" where
  "pypotrace_bitmap img_gray threshold invert = np_array_bool (binarize img_gray threshold invert)"

definition cli_bitmap :: "image \<Rightarrow> int \<Rightarrow> bool \<Rightarrow> bool list" where
  "cli_bitmap img_gray threshold invert = pbm_bits (binarize img_gray threshold invert)"

subsection \<open>Tracer parameters\<close>

text \<open>
  \<^verbatim>\<open>self.default_params\<close>. The two floating-point entries are kept as decimal fractions
  (numerator and number of fractional digits), which is all the code does with them:
  it passes them on and prints them.
\<close>

datatype pyfloat = PyFloat nat nat

fun pad_left :: "nat \<Rightarrow> string \<Rightarrow> string" where
  "pad_left n s = replicate (n - length s) (CHR ''0'') @ s"

fun str_float :: "pyfloat \<Rightarrow> string" where
  "str_float (PyFloat m e) =
     str_nat (m div 10 ^ e) @ ''.'' @ pad_left e (str_nat (m mod 10 ^ e))"

declare pad_left.simps [simp del] str_float.simps [simp del]

record params =
  turnpolicy :: string
  turdsize :: nat
  alphamax :: pyfloat
  opticurve :: bool
  opttolerance :: pyfloat

definition default_params :: params where
  "default_params =
     \<lparr>turnpolicy = ''minority'', turdsize = 2, alphamax = PyFloat 10 1,
      opticurve = True, opttolerance = PyFloat 2 1\<rparr>"

text \<open>The keyword arguments of \<^verbatim>\<open>bmp.trace(...)\<close>, lines 92--98.\<close>

record trace_kwargs =
  kw_turdsize :: nat
  kw_turnpolicy :: string
  kw_alphamax :: pyfloat
  kw_opticurve :: bool
  kw_opttolerance :: pyfloat

definition pypotrace_kwargs :: "params \<Rightarrow> trace_kwargs" where
  "pypotrace_kwargs p =
     \<lparr>kw_turdsize = turdsize p, kw_turnpolicy = turnpolicy p, kw_alphamax = alphamax p,
      kw_opticurve = opticurve p, kw_opttolerance = opttolerance p\<rparr>"

text \<open>The command line of lines 136--147.\<close>

definition potrace_cmd :: "params \<Rightarrow> string \<Rightarrow> string \<Rightarrow> string list" where
  "potrace_cmd p pbm_path svg_path =
     [''potrace'', pbm_path, ''--svg'', ''--output'', svg_path,
      ''--turdsize'', str_nat (turdsize p),
      ''--alphamax'', str_float (alphamax p),
      ''--opttolerance'', str_float (opttolerance p)]
     @ (if \<not> opticurve p then [''--longcurve''] else [])"

subsection \<open>The placeholder document\<close>

definition placeholder_svg :: "nat \<Rightarrow> nat \<Rightarrow> string" where
  \<open>placeholder_svg w h =
     ''<svg xmlns="http://www.w3.org/2000/svg" ''
     @ ''width="'' @ str_nat w @ ''" height="'' @ str_nat h @ ''" ''
     @ ''viewBox="0 0 '' @ str_nat w @ '' '' @ str_nat h @ ''" version="1.1"></svg>''\<close>

subsection \<open>The command-line backend\<close>

text \<open>
  The part of the file system the backend touches: the directories that exist and the
  content of each file. A PBM file holds a size and one bit per pixel.
\<close>

datatype file_content = PBM nat nat "bool list" | Text string

record world =
  dirs :: "string set"
  files :: "string \<rightharpoonup> file_content"

text \<open>\<^verbatim>\<open>os.path.join\<close> on two components (POSIX).\<close>

definition path_join :: "string \<Rightarrow> string \<Rightarrow> string" where
  "path_join a b =
     (if b \<noteq> [] \<and> hd b = CHR ''/'' then b
      else if a = [] \<or> last a = CHR ''/'' then a @ b
      else a @ ''/'' @ b)"

text \<open>A path is the directory itself or lies below it; the empty name is the current
  directory, with the relative paths below it.\<close>

definition is_under :: "string \<Rightarrow> string \<Rightarrow> bool" where
  "is_under d p =
     (if d = [] then p = [] \<or> hd p \<noteq> CHR ''/''
      else take (length d) p = d \<and>
           (length p = length d \<or> last d = CHR ''/'' \<or> p ! length d = CHR ''/''))"

definition rmtree :: "string \<Rightarrow> world \<Rightarrow> world" where
  "rmtree d w =
     \<lparr>dirs = {p \<in> dirs w. \<not> is_under d p},
      files = (\<lambda>p. if is_under d p then None else files w p)\<rparr>"

text \<open>
  \<^verbatim>\<open>with tempfile.TemporaryDirectory() as tmpdir:\<close> creates the directory, runs the body
  and removes the directory with everything below it when the body is left, whether by
  falling through, by \<^verbatim>\<open>return\<close> or by an exception. The name is the system's choice.
\<close>

definition temporary_directory ::
  "string \<Rightarrow> (string \<Rightarrow> world \<Rightarrow> 'a \<times> world) \<Rightarrow> world \<Rightarrow> 'a \<times> world" where
  "temporary_directory tmpdir body w =
     (case body tmpdir (w\<lparr>dirs := insert tmpdir (dirs w)\<rparr>) of
        (r, w') \<Rightarrow> (r, rmtree tmpdir w'))"

text \<open>What \<^verbatim>\<open>subprocess.run(cmd, timeout=60, check=True)\<close> can do.\<close>

datatype proc_result =
    Completed
  | FileNotFoundError
  | CalledProcessError string
  | TimeoutExpired
  | OtherException string

datatype xml_error = NotWellFormed | OutsideModel

datatype error =
    ValueError
  | ParseError xml_error
  | OpenFailed
  | UnicodeDecodeError
  | Uncaught string

type_synonym subprocess = "string list \<Rightarrow> world \<Rightarrow> proc_result \<times> world"

definition cli_body ::
  "params \<Rightarrow> subprocess \<Rightarrow> image \<Rightarrow> string \<Rightarrow> world \<Rightarrow> (error + string) \<times> world" where
  "cli_body p run img_bw tmpdir w =
     (let pbm_path = path_join tmpdir ''input.pbm'';
          svg_path = path_join tmpdir ''output.svg'';
          w1 = w\<lparr>files := (files w)(pbm_path \<mapsto> PBM (width img_bw) (height img_bw) (pbm_bits img_bw))\<rparr>;
          cmd = potrace_cmd p pbm_path svg_path
      in case run cmd w1 of
           (FileNotFoundError, w2) \<Rightarrow> (Inr (placeholder_svg (width img_bw) (height img_bw)), w2)
         | (CalledProcessError e, w2) \<Rightarrow> (Inr (placeholder_svg (width img_bw) (height img_bw)), w2)
         | (TimeoutExpired, w2) \<Rightarrow> (Inr (placeholder_svg (width img_bw) (height img_bw)), w2)
         | (OtherException e, w2) \<Rightarrow> (Inl (Uncaught e), w2)
         | (Completed, w2) \<Rightarrow>
             (case files w2 svg_path of
                None \<Rightarrow> (Inl OpenFailed, w2)
              | Some (PBM _ _ _) \<Rightarrow> (Inl UnicodeDecodeError, w2)
              | Some (Text svg_content) \<Rightarrow> (Inr svg_content, w2)))"

definition vectorize_with_cli ::
  "params \<Rightarrow> subprocess \<Rightarrow> string \<Rightarrow> image \<Rightarrow> int \<Rightarrow> bool \<Rightarrow> world \<Rightarrow> (error + string) \<times> world" where
  "vectorize_with_cli p run tmpdir img_gray threshold invert w =
     temporary_directory tmpdir (cli_body p run (binarize img_gray threshold invert)) w"

subsection \<open>Element trees and their serialization\<close>

text \<open>
  \<^verbatim>\<open>xml.etree.ElementTree.Element\<close>: a tag, the attributes in insertion order, the text
  before the first child, the text after the closing tag, and the children. A comment
  is an element whose tag is the \<^verbatim>\<open>Comment\<close> factory. Text and tail are \<^verbatim>\<open>None\<close> or a
  string.
\<close>

datatype tagname = Tag string | CommentTag

datatype element =
  Element (tag: tagname) (attrib: "(string \<times> string) list") (etext: "string option")
    (tail: "string option") (children: "element list")

text \<open>Truth value of \<^verbatim>\<open>None\<close> or a string.\<close>

fun truthy :: "string option \<Rightarrow> bool" where
  "truthy None = False"
| "truthy (Some s) = (s \<noteq> [])"

definition escape_cdata :: "string \<Rightarrow> string" where
  "escape_cdata s =
     concat (map (\<lambda>ch. if ch = CHR ''&'' then ''&amp;''
                        else if ch = CHR ''<'' then ''&lt;''
                        else if ch = CHR ''>'' then ''&gt;''
                        else [ch]) s)"

definition escape_attrib :: "string \<Rightarrow> string" where
  \<open>escape_attrib s =
     concat (map (\<lambda>ch. if ch = CHR ''&'' then ''&amp;''
                        else if ch = CHR ''<'' then ''&lt;''
                        else if ch = CHR ''>'' then ''&gt;''
                        else if ch = CHR 0x22 then ''&quot;''
                        else if ch = CHR 0x0D then ''&#13;''
                        else if ch = CHR 0x0A then ''&#10;''
                        else if ch = CHR 0x09 then ''&#09;''
                        else [ch]) s)\<close>

text \<open>
  Names: a name in a namespace is written \<^verbatim>\<open>{uri}local\<close>. The serializer first walks the
  tree (\<^verbatim>\<open>_namespaces\<close>), giving every namespace it meets a prefix: a well-known one or
  \<^verbatim>\<open>ns0\<close>, \<^verbatim>\<open>ns1\<close>, ... in the order of first use.
\<close>

definition split_qname :: "string \<Rightarrow> (string \<times> string) option" where
  "split_qname n =
     (if n \<noteq> [] \<and> hd n = CHR ''{'' \<and> CHR ''}'' \<in> set n
      then let r = rev (tl n)
           in Some (rev (tl (dropWhile (\<lambda>ch. ch \<noteq> CHR ''}'') r)),
                    rev (takeWhile (\<lambda>ch. ch \<noteq> CHR ''}'') r))
      else None)"

definition namespace_map :: "(string \<times> string) list" where
  "namespace_map =
     [(''http://www.w3.org/XML/1998/namespace'', ''xml''),
      (''http://www.w3.org/1999/xhtml'', ''html''),
      (''http://www.w3.org/1999/02/22-rdf-syntax-ns#'', ''rdf''),
      (''http://schemas.xmlsoap.org/wsdl/'', ''wsdl''),
      (''http://www.w3.org/2001/XMLSchema'', ''xs''),
      (''http://www.w3.org/2001/XMLSchema-instance'', ''xsi''),
      (''http://purl.org/dc/elements/1.1/'', ''dc'')]"

definition default_prefix :: "(string \<times> string) list \<Rightarrow> string \<Rightarrow> string" where
  "default_prefix namespaces uri =
     (case map_of namespace_map uri of
        Some pre \<Rightarrow> pre
      | None \<Rightarrow> ''ns'' @ str_nat (length namespaces))"

definition add_qname :: "string \<Rightarrow> (string \<times> string) list \<Rightarrow> (string \<times> string) list" where
  "add_qname n namespaces =
     (case split_qname n of
        None \<Rightarrow> namespaces
      | Some (uri, local) \<Rightarrow>
          (case map_of namespaces uri of
             Some pre \<Rightarrow> namespaces
           | None \<Rightarrow>
               if default_prefix namespaces uri = ''xml'' then namespaces
               else namespaces @ [(uri, default_prefix namespaces uri)]))"

fun element_names :: "element \<Rightarrow> string list" where
  "element_names (Element t a tx ta cs) =
     (case t of CommentTag \<Rightarrow> [] | Tag name \<Rightarrow> [name])
     @ map fst a @ concat (map element_names cs)"

definition collect_namespaces :: "element \<Rightarrow> (string \<times> string) list" where
  "collect_namespaces e = fold add_qname (element_names e) []"

definition qname :: "(string \<times> string) list \<Rightarrow> string \<Rightarrow> string" where
  "qname namespaces n =
     (case split_qname n of
        None \<Rightarrow> n
      | Some (uri, local) \<Rightarrow>
          (case map_of namespaces uri of
             Some pre \<Rightarrow> pre @ '':'' @ local
           | None \<Rightarrow> default_prefix namespaces uri @ '':'' @ local))"

definition write_xmlns :: "string \<times> string \<Rightarrow> string" where
  \<open>write_xmlns ns = '' xmlns:'' @ snd ns @ ''="'' @ escape_attrib (fst ns) @ ''"''\<close>

definition write_attrib :: "(string \<times> string) list \<Rightarrow> string \<times> string \<Rightarrow> string" where
  \<open>write_attrib namespaces kv =
     '' '' @ qname namespaces (fst kv) @ ''="'' @ escape_attrib (snd kv) @ ''"''\<close>

definition write_text :: "string option \<Rightarrow> string" where
  "write_text t = (case t of None \<Rightarrow> [] | Some s \<Rightarrow> escape_cdata s)"

text \<open>
  \<^verbatim>\<open>_serialize_xml\<close> with short empty elements. The namespace declarations are passed for
  the root only and written sorted by prefix. A name that opens a brace and never
  closes it makes the library raise; no tree of this service has one, and the model
  writes it as it is.
\<close>

fun serialize_xml ::
  "(string \<times> string) list \<Rightarrow> (string \<times> string) list \<Rightarrow> element \<Rightarrow> string" where
  "serialize_xml namespaces decls (Element t a tx ta cs) =
     (case t of
        CommentTag \<Rightarrow> ''<!--'' @ (case tx of None \<Rightarrow> ''None'' | Some s \<Rightarrow> s) @ ''-->''
      | Tag name \<Rightarrow>
          ''<'' @ qname namespaces name
          @ concat (map write_xmlns (sort_key snd decls))
          @ concat (map (write_attrib namespaces) a)
          @ (if truthy tx \<or> cs \<noteq> []
             then ''>'' @ write_text tx @ concat (map (serialize_xml namespaces []) cs)
                  @ ''</'' @ qname namespaces name @ ''>''
             else '' />''))
     @ write_text ta"

text \<open>\<^verbatim>\<open>ET.tostring(elem, encoding='unicode')\<close>\<close>

definition tostring :: "element \<Rightarrow> string" where
  "tostring e = serialize_xml (collect_namespaces e) (collect_namespaces e) e"

subsection \<open>From traced curves to SVG\<close>

text \<open>
  What the in-process tracer returns: a list of curves, each with a start point and
  segments that are either a corner (\<^verbatim>\<open>c\<close>, \<^verbatim>\<open>end_point\<close>) or a Bezier piece (\<^verbatim>\<open>c1\<close>,
  \<^verbatim>\<open>c2\<close>, \<^verbatim>\<open>end_point\<close>). Coordinates are floating-point numbers; how an f-string
  prints one is the parameter \<open>fmt\<close>.
\<close>

type_synonym 'a pt = "'a \<times> 'a"

datatype 'a segment = Corner "'a pt" "'a pt" | Bezier "'a pt" "'a pt" "'a pt"

record 'a curve =
  start_point :: "'a pt"
  segments :: "'a segment list"

definition fmt_pt :: "('a \<Rightarrow> string) \<Rightarrow> 'a pt \<Rightarrow> string" where
  "fmt_pt fmt p = fmt (fst p) @ '','' @ fmt (snd p)"

fun segment_data :: "('a \<Rightarrow> string) \<Rightarrow> 'a segment \<Rightarrow> string list" where
  "segment_data fmt (Corner c e) = [''L '' @ fmt_pt fmt c, ''L '' @ fmt_pt fmt e]"
| "segment_data fmt (Bezier c1 c2 e) =
     [''C '' @ fmt_pt fmt c1 @ '' '' @ fmt_pt fmt c2 @ '' '' @ fmt_pt fmt e]"

text \<open>The list \<^verbatim>\<open>path_data\<close> when line 217 has run.\<close>

definition path_data :: "('a \<Rightarrow> string) \<Rightarrow> 'a curve \<Rightarrow> string list" where
  "path_data fmt cv =
     [''M '' @ fmt_pt fmt (start_point cv)]
     @ concat (map (segment_data fmt) (segments cv))
     @ [''Z'']"

text \<open>\<^verbatim>\<open>sep.join(parts)\<close>\<close>

fun join :: "string \<Rightarrow> string list \<Rightarrow> string" where
  "join sep [] = []"
| "join sep [s] = s"
| "join sep (s # t # ss) = s @ sep @ join sep (t # ss)"

definition path_elem :: "('a \<Rightarrow> string) \<Rightarrow> 'a curve \<Rightarrow> element" where
  "path_elem fmt cv =
     Element (Tag ''path'')
       [(''d'', join '' '' (path_data fmt cv)), (''fill'', ''black''), (''stroke'', ''none'')]
       None None []"

definition svg_tree :: "('a \<Rightarrow> string) \<Rightarrow> 'a curve list \<Rightarrow> nat \<Rightarrow> nat \<Rightarrow> element" where
  "svg_tree fmt path w h =
     Element (Tag ''svg'')
       [(''xmlns'', ''http://www.w3.org/2000/svg''),
        (''width'', str_nat w),
        (''height'', str_nat h),
        (''viewBox'', ''0 0 '' @ str_nat w @ '' '' @ str_nat h),
        (''version'', ''1.1'')]
       None None (map (path_elem fmt) path)"

definition path_to_svg :: "('a \<Rightarrow> string) \<Rightarrow> 'a curve list \<Rightarrow> nat \<Rightarrow> nat \<Rightarrow> string" where
  "path_to_svg fmt path w h = tostring (svg_tree fmt path w h)"

subsection \<open>The in-process backend\<close>

text \<open>
  \<^verbatim>\<open>pypotrace.Bitmap(bitmap_array).trace(...)\<close> is the parameter \<open>trace\<close>: from the keyword
  arguments and the boolean array (with its shape) to the traced curves.
\<close>

type_synonym 'a tracer = "trace_kwargs \<Rightarrow> nat \<Rightarrow> nat \<Rightarrow> bool list \<Rightarrow> 'a curve list"

definition vectorize_with_pypotrace ::
  "params \<Rightarrow> 'a tracer \<Rightarrow> ('a \<Rightarrow> string) \<Rightarrow> image \<Rightarrow> int \<Rightarrow> bool \<Rightarrow> string" where
  "vectorize_with_pypotrace p trace fmt img_gray threshold invert =
     (let bitmap_array = np_array_bool (binarize img_gray threshold invert);
          path = trace (pypotrace_kwargs p) (height img_gray) (width img_gray) bitmap_array
      in path_to_svg fmt path (width img_gray) (height img_gray))"

subsection \<open>The entry point\<close>

text \<open>
  \<^verbatim>\<open>bitmap_to_svg\<close> takes the in-process backend when \<^verbatim>\<open>PYPOTRACE_AVAILABLE\<close> holds (the
  tracer is then there) and the command-line backend otherwise. Only the latter touches
  the file system.
\<close>

definition bitmap_to_svg ::
  "params \<Rightarrow> 'a tracer option \<Rightarrow> ('a \<Rightarrow> string) \<Rightarrow> subprocess \<Rightarrow> string \<Rightarrow>
     image \<Rightarrow> int \<Rightarrow> bool \<Rightarrow> world \<Rightarrow> (error + string) \<times> world" where
  "bitmap_to_svg p pypotrace fmt run tmpdir img_gray threshold invert w =
     (case pypotrace of
        Some trace \<Rightarrow> (Inr (vectorize_with_pypotrace p trace fmt img_gray threshold invert), w)
      | None \<Rightarrow> vectorize_with_cli p run tmpdir img_gray threshold invert w)"

subsection \<open>Reading markup: \<^verbatim>\<open>ET.fromstring\<close>\<close>

text \<open>
  The parser of the standard library, for the part of XML the service meets: start, end
  and empty-element tags with quoted attributes, namespace declarations, character data
  with the five predefined entities, comments, processing instructions and the XML
  declaration. Document type declarations, CDATA sections and character references
  are outside the model (\<open>OutsideModel\<close>). The tokenizer reports events; the tree
  builder turns them into elements. As the library documents, the parser skips over
  comments in the input instead of creating comment objects for them: the builder's
  \<^verbatim>\<open>comment\<close> handler makes the node and, since \<^verbatim>\<open>insert_comments\<close> is off, does not put
  it into the tree; the same holds for processing instructions.
\<close>

definition is_xml_space :: "char \<Rightarrow> bool" where
  "is_xml_space ch = (ch = CHR 0x20 \<or> ch = CHR 0x09 \<or> ch = CHR 0x0A \<or> ch = CHR 0x0D)"

definition is_name_start :: "char \<Rightarrow> bool" where
  "is_name_start ch =
     (let n = (of_char ch :: nat)
      in (65 \<le> n \<and> n \<le> 90) \<or> (97 \<le> n \<and> n \<le> 122) \<or> ch = CHR ''_'' \<or> ch = CHR '':'')"

definition is_name_char :: "char \<Rightarrow> bool" where
  "is_name_char ch =
     (let n = (of_char ch :: nat)
      in is_name_start ch \<or> (48 \<le> n \<and> n \<le> 57) \<or> ch = CHR ''-'' \<or> ch = CHR ''.'')"

text \<open>Line ends: \<^verbatim>\<open>\r\n\<close> and a lone \<^verbatim>\<open>\r\<close> are read as \<^verbatim>\<open>\n\<close>.\<close>

fun normalize_eol :: "string \<Rightarrow> string" where
  "normalize_eol [] = []"
| "normalize_eol (ch # cs) =
     (if ch = CHR 0x0D
      then CHR 0x0A # normalize_eol (if take 1 cs = [CHR 0x0A] then drop 1 cs else cs)
      else ch # normalize_eol cs)"

fun rcons :: "'a \<Rightarrow> 'e + 'a list \<Rightarrow> 'e + 'a list" where
  "rcons x (Inl e) = Inl e"
| "rcons x (Inr xs) = Inr (x # xs)"

fun decode_entities :: "string \<Rightarrow> xml_error + string" where
  "decode_entities [] = Inr []"
| "decode_entities (ch # cs) =
     (if ch = CHR ''&'' then
        (if take 4 cs = ''amp;'' then rcons (CHR ''&'') (decode_entities (drop 4 cs))
         else if take 3 cs = ''lt;'' then rcons (CHR ''<'') (decode_entities (drop 3 cs))
         else if take 3 cs = ''gt;'' then rcons (CHR ''>'') (decode_entities (drop 3 cs))
         else if take 5 cs = ''quot;'' then rcons (CHR 0x22) (decode_entities (drop 5 cs))
         else if take 5 cs = ''apos;'' then rcons (CHR 0x27) (decode_entities (drop 5 cs))
         else Inl OutsideModel)
      else rcons ch (decode_entities cs))"

datatype chunk = TextChunk string | TagChunk string | CommentChunk string | PIChunk string

datatype scan_mode = MText | MTag | MQuote char | MComment | MPI

definition text_chunk :: "string \<Rightarrow> chunk list" where
  "text_chunk acc = (if acc = [] then [] else [TextChunk acc])"

fun radd :: "'a list \<Rightarrow> 'e + 'a list \<Rightarrow> 'e + 'a list" where
  "radd xs (Inl e) = Inl e"
| "radd xs (Inr ys) = Inr (xs @ ys)"

fun scan :: "scan_mode \<Rightarrow> string \<Rightarrow> string \<Rightarrow> xml_error + chunk list" where
  "scan m acc [] = (if m = MText then Inr (text_chunk acc) else Inl NotWellFormed)"
| "scan m acc (ch # cs) =
     (case m of
        MText \<Rightarrow>
          if ch = CHR ''<'' then
            (if take 3 cs = ''!--'' then radd (text_chunk acc) (scan MComment [] (drop 3 cs))
             else if take 1 cs = ''?'' then radd (text_chunk acc) (scan MPI [] (drop 1 cs))
             else if take 1 cs = ''!'' then Inl OutsideModel
             else radd (text_chunk acc) (scan MTag [] cs))
          else scan MText (acc @ [ch]) cs
      | MTag \<Rightarrow>
          if ch = CHR ''>'' then rcons (TagChunk acc) (scan MText [] cs)
          else if ch = CHR ''<'' then Inl NotWellFormed
          else if ch = CHR 0x22 \<or> ch = CHR 0x27 then scan (MQuote ch) (acc @ [ch]) cs
          else scan MTag (acc @ [ch]) cs
      | MQuote q \<Rightarrow>
          if ch = q then scan MTag (acc @ [ch]) cs
          else if ch = CHR ''<'' then Inl NotWellFormed
          else scan (MQuote q) (acc @ [ch]) cs
      | MComment \<Rightarrow>
          if ch = CHR ''-'' \<and> take 1 cs = ''-'' then
            (if take 2 cs = ''->'' then rcons (CommentChunk acc) (scan MText [] (drop 2 cs))
             else Inl NotWellFormed)
          else scan MComment (acc @ [ch]) cs
      | MPI \<Rightarrow>
          if ch = CHR ''?'' \<and> take 1 cs = ''>'' then rcons (PIChunk acc) (scan MText [] (drop 1 cs))
          else scan MPI (acc @ [ch]) cs)"

text \<open>The attributes inside a start tag; a literal tab or line end in a value is read
  as a space.\<close>

datatype attr_mode =
    AAfter
  | ASkip
  | AName string
  | AEq string
  | AQuote string
  | AValue string char string

definition attr_value :: "string \<Rightarrow> xml_error + string" where
  "attr_value v = decode_entities (map (\<lambda>ch. if is_xml_space ch then CHR 0x20 else ch) v)"

fun rpair :: "string \<Rightarrow> xml_error + string \<Rightarrow> xml_error + (string \<times> string) list
    \<Rightarrow> xml_error + (string \<times> string) list" where
  "rpair k (Inl e) r = Inl e"
| "rpair k (Inr v) r = rcons (k, v) r"

fun scan_attrs :: "attr_mode \<Rightarrow> string \<Rightarrow> xml_error + (string \<times> string) list" where
  "scan_attrs m [] = (if m = AAfter \<or> m = ASkip then Inr [] else Inl NotWellFormed)"
| "scan_attrs m (ch # cs) =
     (case m of
        AAfter \<Rightarrow> if is_xml_space ch then scan_attrs ASkip cs else Inl NotWellFormed
      | ASkip \<Rightarrow>
          if is_xml_space ch then scan_attrs ASkip cs
          else if is_name_start ch then scan_attrs (AName [ch]) cs
          else Inl NotWellFormed
      | AName n \<Rightarrow>
          if is_name_char ch then scan_attrs (AName (n @ [ch])) cs
          else if ch = CHR ''='' then scan_attrs (AQuote n) cs
          else if is_xml_space ch then scan_attrs (AEq n) cs
          else Inl NotWellFormed
      | AEq n \<Rightarrow>
          if is_xml_space ch then scan_attrs (AEq n) cs
          else if ch = CHR ''='' then scan_attrs (AQuote n) cs
          else Inl NotWellFormed
      | AQuote n \<Rightarrow>
          if is_xml_space ch then scan_attrs (AQuote n) cs
          else if ch = CHR 0x22 \<or> ch = CHR 0x27 then scan_attrs (AValue n ch []) cs
          else Inl NotWellFormed
      | AValue n q v \<Rightarrow>
          if ch = q then rpair n (attr_value v) (scan_attrs AAfter cs)
          else scan_attrs (AValue n q (v @ [ch])) cs)"

datatype event =
    Start string "(string \<times> string) list"
  | End string
  | Data string
  | CommentEv string

definition tag_events :: "string \<Rightarrow> xml_error + event list" where
  "tag_events s =
     (if s \<noteq> [] \<and> hd s = CHR ''/'' then
        (let name = takeWhile is_name_char (tl s);
             rest = dropWhile is_name_char (tl s)
         in if name \<noteq> [] \<and> is_name_start (hd name) \<and> list_all is_xml_space rest
            then Inr [End name] else Inl NotWellFormed)
      else
        (let name = takeWhile is_name_char s;
             rest = dropWhile is_name_char s;
             empty = (rest \<noteq> [] \<and> last rest = CHR ''/'');
             attr_text = (if empty then butlast rest else rest)
         in if name = [] \<or> \<not> is_name_start (hd name) then Inl NotWellFormed
            else (case scan_attrs AAfter attr_text of
                    Inl e \<Rightarrow> Inl e
                  | Inr attrs \<Rightarrow>
                      if \<not> distinct (map fst attrs) then Inl NotWellFormed
                      else Inr (Start name attrs # (if empty then [End name] else [])))))"

fun chunk_events :: "chunk \<Rightarrow> xml_error + event list" where
  "chunk_events (TextChunk s) =
     (case decode_entities s of Inl e \<Rightarrow> Inl e | Inr d \<Rightarrow> Inr [Data d])"
| "chunk_events (TagChunk s) = tag_events s"
| "chunk_events (CommentChunk s) = Inr [CommentEv s]"
| "chunk_events (PIChunk s) = Inr []"

fun events_of_chunks :: "chunk list \<Rightarrow> xml_error + event list" where
  "events_of_chunks [] = Inr []"
| "events_of_chunks (c # cs) =
     (case chunk_events c of
        Inl e \<Rightarrow> Inl e
      | Inr evs \<Rightarrow> radd evs (events_of_chunks cs))"

definition xml_events :: "string \<Rightarrow> xml_error + event list" where
  "xml_events s =
     (case scan MText [] (normalize_eol s) of
        Inl e \<Rightarrow> Inl e
      | Inr chunks \<Rightarrow> events_of_chunks chunks)"

text \<open>Namespace declarations in scope, as pairs of prefix and URI; the empty prefix is
  the default namespace, which applies to element names only.\<close>

definition ns_decl :: "string \<times> string \<Rightarrow> (string \<times> string) option" where
  "ns_decl kv =
     (if fst kv = ''xmlns'' then Some ([], snd kv)
      else if take 6 (fst kv) = ''xmlns:'' then Some (drop 6 (fst kv), snd kv)
      else None)"

definition split_prefix :: "string \<Rightarrow> (string \<times> string) option" where
  "split_prefix n =
     (if CHR '':'' \<in> set n
      then Some (takeWhile (\<lambda>ch. ch \<noteq> CHR '':'') n, tl (dropWhile (\<lambda>ch. ch \<noteq> CHR '':'') n))
      else None)"

definition clark :: "string \<Rightarrow> string \<Rightarrow> string" where
  "clark uri local = ''{'' @ uri @ ''}'' @ local"

definition resolve_name :: "bool \<Rightarrow> (string \<times> string) list \<Rightarrow> string \<Rightarrow> xml_error + string" where
  "resolve_name is_attr env n =
     (case split_prefix n of
        Some (pre, local) \<Rightarrow>
          (case map_of env pre of
             Some uri \<Rightarrow> Inr (clark uri local)
           | None \<Rightarrow> Inl NotWellFormed)
      | None \<Rightarrow>
          if is_attr then Inr n
          else (case map_of env [] of
                  Some uri \<Rightarrow> if uri = [] then Inr n else Inr (clark uri n)
                | None \<Rightarrow> Inr n))"

fun resolve_attrs ::
  "(string \<times> string) list \<Rightarrow> (string \<times> string) list \<Rightarrow> xml_error + (string \<times> string) list" where
  "resolve_attrs env [] = Inr []"
| "resolve_attrs env (kv # kvs) =
     (case ns_decl kv of
        Some d \<Rightarrow> resolve_attrs env kvs
      | None \<Rightarrow>
          (case resolve_name True env (fst kv) of
             Inl e \<Rightarrow> Inl e
           | Inr k \<Rightarrow> rcons (k, snd kv) (resolve_attrs env kvs)))"

definition xml_namespace_env :: "(string \<times> string) list" where
  "xml_namespace_env = [(''xml'', ''http://www.w3.org/XML/1998/namespace'')]"

text \<open>
  \<^verbatim>\<open>TreeBuilder\<close>: a stack of open elements, the character data collected since the last
  tag, and whether that data follows an end tag (then it is the tail of the element
  just closed) or a start tag (then it is the text of the element just opened).
\<close>

datatype frame =
  Frame string string "(string \<times> string) list" "string option" "element list"
    "(string \<times> string) list"

fun set_tail :: "string option \<Rightarrow> element \<Rightarrow> element" where
  "set_tail v (Element t a tx ta cs) = Element t a tx v cs"

definition set_last_tail :: "string option \<Rightarrow> element list \<Rightarrow> element list" where
  "set_last_tail v cs = (if cs = [] then [] else butlast cs @ [set_tail v (last cs)])"

fun flush :: "frame list \<Rightarrow> string \<Rightarrow> bool \<Rightarrow> frame list" where
  "flush [] data after_end = []"
| "flush (Frame rn t a tx cs env # st) data after_end =
     (if data = [] then Frame rn t a tx cs env # st
      else if after_end then Frame rn t a tx (set_last_tail (Some data) cs) env # st
      else Frame rn t a (Some data) cs env # st)"

fun scope :: "frame list \<Rightarrow> (string \<times> string) list" where
  "scope [] = xml_namespace_env"
| "scope (Frame rn t a tx cs env # st) = env"

fun build ::
  "event list \<Rightarrow> frame list \<Rightarrow> string \<Rightarrow> bool \<Rightarrow> element option \<Rightarrow> xml_error + element" where
  "build [] st data after_end root =
     (case root of
        Some r \<Rightarrow> if st = [] then Inr r else Inl NotWellFormed
      | None \<Rightarrow> Inl NotWellFormed)"
| "build (ev # evs) st data after_end root =
     (case ev of
        CommentEv c \<Rightarrow> build evs st data after_end root
      | Data d \<Rightarrow>
          if st = [] then
            (if list_all is_xml_space d then build evs st data after_end root
             else Inl NotWellFormed)
          else build evs st (data @ d) after_end root
      | Start name attrs \<Rightarrow>
          if st = [] \<and> root \<noteq> None then Inl NotWellFormed
          else
            (let env = List.map_filter ns_decl attrs @ scope st
             in case resolve_name False env name of
                  Inl e \<Rightarrow> Inl e
                | Inr t \<Rightarrow>
                    (case resolve_attrs env attrs of
                       Inl e \<Rightarrow> Inl e
                     | Inr a \<Rightarrow>
                         build evs (Frame name t a None [] env # flush st data after_end)
                           [] False root))
      | End name \<Rightarrow>
          (case flush st data after_end of
             [] \<Rightarrow> Inl NotWellFormed
           | Frame rn t a tx cs env # rest \<Rightarrow>
               if rn \<noteq> name then Inl NotWellFormed
               else
                 (case rest of
                    [] \<Rightarrow> build evs [] [] True (Some (Element (Tag t) a tx None cs))
                  | Frame rn' t' a' tx' cs' env' # rest' \<Rightarrow>
                      build evs
                        (Frame rn' t' a' tx' (cs' @ [Element (Tag t) a tx None cs]) env' # rest')
                        [] True root)))"

definition fromstring :: "string \<Rightarrow> xml_error + element" where
  "fromstring s =
     (case xml_events s of
        Inl e \<Rightarrow> Inl e
      | Inr evs \<Rightarrow> build evs [] [] False None)"

subsection \<open>The fallback optimizer\<close>

text \<open>
  The loop of lines 258--260 walks \<^verbatim>\<open>root.iter()\<close>, the root first and then its
  descendants in document order, and calls \<^verbatim>\<open>root.remove(elem)\<close> on every comment it
  meets. \<^verbatim>\<open>remove\<close> looks among the direct children of the root only and raises
  \<^verbatim>\<open>ValueError\<close> when the node is not one of them. The iterator reads the child list
  by position while the loop shortens it, so the child that follows a removed comment
  is passed over, with everything below it.
\<close>

fun has_comment :: "element \<Rightarrow> bool" where
  "has_comment (Element t a tx ta cs) = (t = CommentTag \<or> list_ex has_comment cs)"

fun remove_loop :: "element list \<Rightarrow> error + element list" where
  "remove_loop [] = Inr []"
| "remove_loop [c] =
     (if list_ex has_comment (children c) then Inl ValueError
      else if tag c = CommentTag then Inr []
      else Inr [c])"
| "remove_loop (c # d # ds) =
     (if list_ex has_comment (children c) then Inl ValueError
      else if tag c = CommentTag then rcons d (remove_loop ds)
      else rcons c (remove_loop (d # ds)))"

definition remove_comments :: "element \<Rightarrow> error + element" where
  "remove_comments root =
     (if tag root = CommentTag then Inl ValueError
      else (case remove_loop (children root) of
              Inl e \<Rightarrow> Inl e
            | Inr cs \<Rightarrow> Inr (Element (tag root) (attrib root) (etext root) (tail root) cs)))"

text \<open>\<^verbatim>\<open>not s or not s.strip()\<close> for \<^verbatim>\<open>None\<close> or a string of ASCII characters.\<close>

definition is_space :: "char \<Rightarrow> bool" where
  "is_space ch =
     (let n = (of_char ch :: nat) in (9 \<le> n \<and> n \<le> 13) \<or> (28 \<le> n \<and> n \<le> 32))"

fun blank :: "string option \<Rightarrow> bool" where
  "blank None = True"
| "blank (Some s) = list_all is_space s"

definition indent_str :: "nat \<Rightarrow> string" where
  "indent_str level = CHR 0x0A # concat (replicate level ''  '')"

definition retail_last :: "string \<Rightarrow> element list \<Rightarrow> element list" where
  "retail_last indent cs =
     (if cs = [] then []
      else butlast cs @ [if blank (tail (last cs)) then set_tail (Some indent) (last cs) else last cs])"

fun indent_xml :: "element \<Rightarrow> nat \<Rightarrow> element" where
  "indent_xml (Element t a tx ta cs) level =
     (if cs \<noteq> [] then
        Element t a
          (if blank tx then Some (indent_str level @ ''  '') else tx)
          (if blank ta then Some (indent_str level) else ta)
          (retail_last (indent_str level) (map (\<lambda>c. indent_xml c (level + 1)) cs))
      else if level \<noteq> 0 \<and> blank ta then Element t a tx (Some (indent_str level)) cs
      else Element t a tx ta cs)"

definition basic_svg_optimization :: "string \<Rightarrow> error + string" where
  "basic_svg_optimization svg_content =
     (case fromstring svg_content of
        Inl e \<Rightarrow> Inl (ParseError e)
      | Inr root \<Rightarrow>
          (case remove_comments root of
             Inl e \<Rightarrow> Inl e
           | Inr root' \<Rightarrow> Inr (tostring (indent_xml root' 0))))"

text \<open>
  \<^verbatim>\<open>optimize_svg\<close>: the scour library when it can be imported (its \<^verbatim>\<open>scourString\<close> with
  the options of lines 237--244 is the parameter), the fallback on \<^verbatim>\<open>ImportError\<close>.
\<close>

definition optimize_svg :: "(string \<Rightarrow> error + string) option \<Rightarrow> string \<Rightarrow> error + string" where
  "optimize_svg scour svg_content =
     (case scour of
        Some scourString \<Rightarrow> scourString svg_content
      | None \<Rightarrow> basic_svg_optimization svg_content)"

subsection \<open>Notions used in the statements\<close>

text \<open>The file system just before the potrace process starts, and its command line.\<close>

definition cli_world :: "string \<Rightarrow> image \<Rightarrow> int \<Rightarrow> bool \<Rightarrow> world \<Rightarrow> world" where
  "cli_world tmpdir img threshold invert w =
     w\<lparr>dirs := insert tmpdir (dirs w),
       files := (files w)(path_join tmpdir ''input.pbm'' \<mapsto>
          PBM (width img) (height img) (cli_bitmap img threshold invert))\<rparr>"

definition cli_cmd :: "params \<Rightarrow> string \<Rightarrow> string list" where
  "cli_cmd p tmpdir =
     potrace_cmd p (path_join tmpdir ''input.pbm'') (path_join tmpdir ''output.svg'')"

text \<open>One item of \<^verbatim>\<open>path_data\<close> is a command: its letter, a space, its coordinates.\<close>

definition is_line_or_curve :: "string \<Rightarrow> bool" where
  "is_line_or_curve s = (take 2 s = ''L '' \<or> take 2 s = ''C '')"

definition is_path_command :: "string \<Rightarrow> bool" where
  "is_path_command s =
     (take 2 s = ''M '' \<or> take 2 s = ''L '' \<or> take 2 s = ''C '' \<or> s = ''Z'')"


text \<open>What line 275 does to the last child.\<close>

definition fix_tail :: "string \<Rightarrow> element \<Rightarrow> element" where
  "fix_tail ind e = (if blank (tail e) then set_tail (Some ind) e else e)"

text \<open>Invariants of the tree builder: no comment node below an open element, and a
  finished root without comment nodes and without tail.\<close>

fun frame_ok :: "frame \<Rightarrow> bool" where
  "frame_ok (Frame rn t a tx cs env) = (\<not> list_ex has_comment cs)"

definition root_ok :: "element option \<Rightarrow> bool" where
  "root_ok r = (case r of None \<Rightarrow> True | Some e \<Rightarrow> \<not> has_comment e \<and> tail e = None)"

section \<open>Properties\<close>

subsection \<open>Binarization\<close>

lemma binarize_size:
  "width (binarize img t i) = width img \<and> height (binarize img t i) = height img"
  by (simp add: binarize_def point_def Let_def)

lemma binarize_pixels:
  "pixels (binarize img threshold invert) = map (bw_pixel threshold invert) (pixels img)"
  by (simp add: binarize_def point_def Let_def bw_pixel_def)




text \<open>
  C9: the bitmap handed to the tracer with inversion is the pixelwise complement of the
  one without, in the in-process backend and in the command-line backend.
\<close>

theorem invert_is_complement:
  "pypotrace_bitmap img threshold True = map Not (pypotrace_bitmap img threshold False)
   \<and> cli_bitmap img threshold True = map Not (cli_bitmap img threshold False)"
  by (simp add: pypotrace_bitmap_def cli_bitmap_def np_array_bool_def pbm_bits_def
      binarize_def point_def threshold_lut_def invert_lut_def)

theorem invert_is_complement_witness:
  "pypotrace_bitmap \<lparr>width = 2, height = 1, pixels = [200, 10]\<rparr> 128 True = [False, True]
   \<and> cli_bitmap \<lparr>width = 2, height = 1, pixels = [200, 10]\<rparr> 128 True = [True, False]"
proof -
  have "pypotrace_bitmap \<lparr>width = 2, height = 1, pixels = [200, 10]\<rparr> 128 False = [True, False]"
    "cli_bitmap \<lparr>width = 2, height = 1, pixels = [200, 10]\<rparr> 128 False = [False, True]"
    by (simp_all add: pypotrace_bitmap_def cli_bitmap_def np_array_bool_def pbm_bits_def
        binarize_def point_def threshold_lut_def)
  then show ?thesis
    using invert_is_complement [of "\<lparr>width = 2, height = 1, pixels = [200, 10]\<rparr>" 128]
    by simp
qed

subsection \<open>The command-line backend\<close>

lemma is_under_path_join: "b \<noteq> [] \<Longrightarrow> hd b \<noteq> CHR ''/'' \<Longrightarrow> is_under d (path_join d b)"
  by (auto simp: is_under_def path_join_def)

lemma is_under_self: "is_under d d"
  by (simp add: is_under_def)

lemma snd_temporary_directory:
  "snd (temporary_directory tmpdir body w)
     = rmtree tmpdir (snd (body tmpdir (w\<lparr>dirs := insert tmpdir (dirs w)\<rparr>)))"
  by (simp add: temporary_directory_def split: prod.splits)

lemma fst_temporary_directory:
  "fst (temporary_directory tmpdir body w)
     = fst (body tmpdir (w\<lparr>dirs := insert tmpdir (dirs w)\<rparr>))"
  by (simp add: temporary_directory_def split: prod.splits)

lemma last_path_join: "b \<noteq> [] \<Longrightarrow> last (path_join a b) = last b"
  by (simp add: path_join_def)

text \<open>
  C8: whatever the potrace process does (it completes, the binary is missing, it exits
  non-zero, it times out, or anything else), after the call the temporary directory
  is gone, and so are the PBM and SVG files and every other path below it.
\<close>

theorem cli_tempdir_removed:
  "tmpdir \<notin> dirs (snd (vectorize_with_cli p run tmpdir img threshold invert w))
   \<and> files (snd (vectorize_with_cli p run tmpdir img threshold invert w))
        (path_join tmpdir ''input.pbm'') = None
   \<and> files (snd (vectorize_with_cli p run tmpdir img threshold invert w))
        (path_join tmpdir ''output.svg'') = None
   \<and> {q \<in> dirs (snd (vectorize_with_cli p run tmpdir img threshold invert w)).
         is_under tmpdir q} = {}
   \<and> {q \<in> dom (files (snd (vectorize_with_cli p run tmpdir img threshold invert w))).
         is_under tmpdir q} = {}"
  by (auto simp: vectorize_with_cli_def snd_temporary_directory rmtree_def is_under_self
      is_under_path_join)

theorem cli_tempdir_removed_witness:
  \<open>''/tmp/tmpab12'' \<notin> dirs (snd (vectorize_with_cli default_params
       (\<lambda>cmd w. (Completed, w\<lparr>files := (files w)(''/tmp/tmpab12/output.svg'' \<mapsto> Text ''<svg/>'')\<rparr>))
       ''/tmp/tmpab12'' \<lparr>width = 1, height = 1, pixels = [200]\<rparr> 128 False
       \<lparr>dirs = {''/tmp''}, files = Map.empty\<rparr>))
   \<and> fst (vectorize_with_cli default_params
       (\<lambda>cmd w. (Completed, w\<lparr>files := (files w)(''/tmp/tmpab12/output.svg'' \<mapsto> Text ''<svg/>'')\<rparr>))
       ''/tmp/tmpab12'' \<lparr>width = 1, height = 1, pixels = [200]\<rparr> 128 False
       \<lparr>dirs = {''/tmp''}, files = Map.empty\<rparr>) = Inr ''<svg/>''\<close>
proof -
  have "path_join ''/tmp/tmpab12'' ''output.svg'' = ''/tmp/tmpab12/output.svg''"
    by (simp add: path_join_def)
  then have "fst (vectorize_with_cli default_params
       (\<lambda>cmd w. (Completed, w\<lparr>files := (files w)(''/tmp/tmpab12/output.svg'' \<mapsto> Text ''<svg/>'')\<rparr>))
       ''/tmp/tmpab12'' \<lparr>width = 1, height = 1, pixels = [200]\<rparr> 128 False
       \<lparr>dirs = {''/tmp''}, files = Map.empty\<rparr>) = Inr ''<svg/>''"
    by (simp add: vectorize_with_cli_def fst_temporary_directory cli_body_def Let_def)
  then show ?thesis
    using cli_tempdir_removed [where tmpdir = "''/tmp/tmpab12''" and p = default_params
        and run = "\<lambda>cmd w. (Completed,
            w\<lparr>files := (files w)(''/tmp/tmpab12/output.svg'' \<mapsto> Text ''<svg/>'')\<rparr>)"
        and img = "\<lparr>width = 1, height = 1, pixels = [200]\<rparr>" and threshold = 128
        and invert = False and w = "\<lparr>dirs = {''/tmp''}, files = Map.empty\<rparr>"]
    by blast
qed

text \<open>
  C1: when \<^verbatim>\<open>subprocess.run\<close> raises \<^verbatim>\<open>FileNotFoundError\<close>, \<^verbatim>\<open>CalledProcessError\<close> or
  \<^verbatim>\<open>TimeoutExpired\<close>, the backend returns (and does not raise) the placeholder document,
  whose width, height and viewBox are those of the image.
\<close>

theorem cli_failure_gives_placeholder:
  assumes "fst (run (cli_cmd p tmpdir) (cli_world tmpdir img threshold invert w)) = r"
    and "r = FileNotFoundError \<or> (\<exists>e. r = CalledProcessError e) \<or> r = TimeoutExpired"
  shows \<open>fst (bitmap_to_svg p None fmt run tmpdir img threshold invert w) =
     Inr (''<svg xmlns="http://www.w3.org/2000/svg" width="'' @ str_nat (width img)
          @ ''" height="'' @ str_nat (height img)
          @ ''" viewBox="0 0 '' @ str_nat (width img) @ '' '' @ str_nat (height img)
          @ ''" version="1.1"></svg>'')\<close>
  using assms
  by (auto simp: bitmap_to_svg_def vectorize_with_cli_def fst_temporary_directory cli_body_def
      Let_def cli_cmd_def
      cli_world_def cli_bitmap_def binarize_size placeholder_svg_def
      split: prod.splits proc_result.splits)

theorem cli_failure_gives_placeholder_witness:
  \<open>fst (bitmap_to_svg default_params None str_nat (\<lambda>cmd w. (TimeoutExpired, w))
          ''/tmp/tmpab12''
          \<lparr>width = 3, height = 2, pixels = [200, 10, 0, 255, 128, 129]\<rparr> 128 False
          \<lparr>dirs = {}, files = Map.empty\<rparr>) =
     Inr ''<svg xmlns="http://www.w3.org/2000/svg" width="3" height="2" viewBox="0 0 3 2" version="1.1"></svg>''\<close>
proof -
  have d: "str_nat 3 = ''3''" "str_nat 2 = ''2''"
    by code_simp+
  show ?thesis
    using cli_failure_gives_placeholder
      [where run = "\<lambda>cmd w. (TimeoutExpired, w)" and p = default_params
        and tmpdir = "''/tmp/tmpab12''"
        and img = "\<lparr>width = 3, height = 2, pixels = [200, 10, 0, 255, 128, 129]\<rparr>"
        and threshold = 128 and invert = False
        and w = "\<lparr>dirs = {}, files = Map.empty\<rparr>" and r = TimeoutExpired
        and fmt = str_nat]
    by (simp add: d)
qed

text \<open>
  C4: the configured turn policy reaches the in-process tracer as a keyword argument,
  but the command line built for potrace holds neither the option (\<^verbatim>\<open>--turnpolicy\<close>,
  \<^verbatim>\<open>-z\<close>) nor the configured value.
\<close>

theorem cli_command_lacks_turnpolicy:
  "''--turnpolicy'' \<notin> set (cli_cmd default_params tmpdir)
   \<and> ''-z'' \<notin> set (cli_cmd default_params tmpdir)
   \<and> turnpolicy default_params \<notin> set (cli_cmd default_params tmpdir)
   \<and> kw_turnpolicy (pypotrace_kwargs default_params) = ''minority''"
proof -
  have a: "last (path_join tmpdir ''input.pbm'') = CHR ''m''"
    "last (path_join tmpdir ''output.svg'') = CHR ''g''"
    by (simp_all add: last_path_join)
  have b: "path_join tmpdir ''input.pbm'' \<noteq> ''--turnpolicy''"
    "path_join tmpdir ''input.pbm'' \<noteq> ''-z''"
    "path_join tmpdir ''input.pbm'' \<noteq> ''minority''"
    "path_join tmpdir ''output.svg'' \<noteq> ''--turnpolicy''"
    "path_join tmpdir ''output.svg'' \<noteq> ''-z''"
    "path_join tmpdir ''output.svg'' \<noteq> ''minority''"
    using a by auto
  have c: "str_nat (turdsize default_params) = ''2''"
    "str_float (alphamax default_params) = ''1.0''"
    "str_float (opttolerance default_params) = ''0.2''"
    by code_simp+
  have d: "opticurve default_params" "turnpolicy default_params = ''minority''"
    by (simp_all add: default_params_def)
  show ?thesis using b
    by (simp add: cli_cmd_def potrace_cmd_def pypotrace_kwargs_def c d)
qed

lemma cli_cmd_example:
  "cli_cmd default_params ''/tmp/tmpab12'' =
     [''potrace'', ''/tmp/tmpab12/input.pbm'', ''--svg'', ''--output'',
      ''/tmp/tmpab12/output.svg'', ''--turdsize'', ''2'', ''--alphamax'', ''1.0'',
      ''--opttolerance'', ''0.2'']"
  by code_simp

subsection \<open>Path data and path elements\<close>

lemma list_all_segment_data: "list_all is_line_or_curve (segment_data fmt sg)"
  by (cases sg) (simp_all add: is_line_or_curve_def)

lemma list_all_concat_segments:
  "list_all is_line_or_curve (concat (map (segment_data fmt) sgs))"
  by (induction sgs) (simp_all add: list_all_segment_data)

lemma line_or_curve_is_command:
  "list_all is_line_or_curve ss \<Longrightarrow> list_all is_path_command ss"
  by (induction ss) (auto simp: is_path_command_def is_line_or_curve_def)

lemma join_head: "join sep (s # ss) = s @ join sep ([] # ss)"
  by (cases ss) simp_all

lemma join_cons_nonempty: "ss \<noteq> [] \<Longrightarrow> join sep (s # ss) = s @ sep @ join sep ss"
  by (cases ss) simp_all

lemma join_snoc: "ss \<noteq> [] \<Longrightarrow> join sep (ss @ [s]) = join sep ss @ sep @ s"
proof (induction ss)
  case Nil
  then show ?case by simp
next
  case (Cons a ss)
  show ?case
  proof (cases "ss = []")
    case True
    then show ?thesis by simp
  next
    case False
    with Cons show ?thesis by (simp add: join_cons_nonempty)
  qed
qed

lemma path_data_shape:
  "path_data fmt cv =
     (''M '' @ fmt_pt fmt (start_point cv))
     # concat (map (segment_data fmt) (segments cv)) @ [''Z'']"
  by (simp add: path_data_def)

lemma join_path_data:
  "join '' '' (path_data fmt cv) =
     ''M '' @ fmt_pt fmt (start_point cv)
     @ join '' '' ([] # concat (map (segment_data fmt) (segments cv))) @ '' Z''"
proof -
  let ?mid = "concat (map (segment_data fmt) (segments cv))"
  let ?m = "''M '' @ fmt_pt fmt (start_point cv)"
  have "path_data fmt cv = (?m # ?mid) @ [''Z'']"
    by (simp add: path_data_def)
  then have "join '' '' (path_data fmt cv) = join '' '' (?m # ?mid) @ '' '' @ ''Z''"
    by (simp only: join_snoc [of "?m # ?mid"] list.simps not_False_eq_True)
  moreover have "join '' '' (?m # ?mid) = ?m @ join '' '' ([] # ?mid)"
    by (rule join_head)
  ultimately show ?thesis by simp
qed

text \<open>
  C3: every child the builder appends to the root is the path element of one traced
  curve; its \<^verbatim>\<open>d\<close> attribute is the joined \<^verbatim>\<open>path_data\<close>, whose first item is the move
  command, whose last item is the close command, and whose items in between are line
  and cubic-curve commands only. As a string it starts with \<^verbatim>\<open>M\<close> and ends with \<^verbatim>\<open>Z\<close>.
\<close>

theorem path_data_closed_contour:
  assumes "e \<in> set (children (svg_tree fmt path w h))"
  shows "\<exists>cv \<in> set path. e = path_elem fmt cv
           \<and> map_of (attrib e) ''d'' = Some (join '' '' (path_data fmt cv))
           \<and> hd (path_data fmt cv) = ''M '' @ fmt_pt fmt (start_point cv)
           \<and> last (path_data fmt cv) = ''Z''
           \<and> list_all is_line_or_curve (butlast (tl (path_data fmt cv)))
           \<and> list_all is_path_command (path_data fmt cv)
           \<and> take 2 (join '' '' (path_data fmt cv)) = ''M ''
           \<and> (\<exists>body. join '' '' (path_data fmt cv) = ''M '' @ body @ '' Z'')"
proof -
  from assms obtain cv where cv: "cv \<in> set path" "e = path_elem fmt cv"
    by (auto simp: svg_tree_def)
  have 1: "map_of (attrib e) ''d'' = Some (join '' '' (path_data fmt cv))"
    using cv by (simp add: path_elem_def)
  have 2: "hd (path_data fmt cv) = ''M '' @ fmt_pt fmt (start_point cv)"
    by (simp add: path_data_def)
  have 3: "last (path_data fmt cv) = ''Z''"
    by (simp add: path_data_def)
  have 4: "list_all is_line_or_curve (butlast (tl (path_data fmt cv)))"
    by (simp add: path_data_shape butlast_append list_all_concat_segments)
  have "list_all is_path_command (concat (map (segment_data fmt) (segments cv)))"
    by (rule line_or_curve_is_command) (rule list_all_concat_segments)
  then have 5: "list_all is_path_command (path_data fmt cv)"
    by (simp add: path_data_shape is_path_command_def)
  have 6: "take 2 (join '' '' (path_data fmt cv)) = ''M ''"
    by (simp add: join_path_data)
  have 7: "\<exists>body. join '' '' (path_data fmt cv) = ''M '' @ body @ '' Z''"
    by (subst join_path_data) (metis append.assoc)
  from cv 1 2 3 4 5 6 7 show ?thesis by blast
qed

theorem path_data_closed_contour_witness:
  "path_elem str_nat \<lparr>start_point = (1, 2), segments = [Corner (3, 4) (5, 6), Bezier (7, 8) (9, 10) (11, 12)]\<rparr>
     \<in> set (children (svg_tree str_nat
          [\<lparr>start_point = (1, 2), segments = [Corner (3, 4) (5, 6), Bezier (7, 8) (9, 10) (11, 12)]\<rparr>] 20 30))
   \<and> map_of (attrib (path_elem str_nat
          \<lparr>start_point = (1, 2), segments = [Corner (3, 4) (5, 6), Bezier (7, 8) (9, 10) (11, 12)]\<rparr>)) ''d''
       = Some ''M 1,2 L 3,4 L 5,6 C 7,8 9,10 11,12 Z''"
proof -
  let ?cv = "\<lparr>start_point = (1, 2), segments = [Corner (3, 4) (5, 6), Bezier (7, 8) (9, 10) (11, 12)]\<rparr>
    :: nat curve"
  have m: "path_elem str_nat ?cv \<in> set (children (svg_tree str_nat [?cv] 20 30))"
    by (simp add: svg_tree_def)
  have j: "join '' '' (path_data str_nat ?cv) = ''M 1,2 L 3,4 L 5,6 C 7,8 9,10 11,12 Z''"
    by code_simp
  from path_data_closed_contour [OF m]
  have "map_of (attrib (path_elem str_nat ?cv)) ''d'' = Some (join '' '' (path_data str_nat ?cv))"
    by auto
  with m j show ?thesis by simp
qed

text \<open>
  C5: every such child is a \<^verbatim>\<open>path\<close> element with exactly the attributes \<^verbatim>\<open>d\<close>,
  \<^verbatim>\<open>fill\<close> and \<^verbatim>\<open>stroke\<close>, where \<^verbatim>\<open>fill\<close> is \<^verbatim>\<open>black\<close> and \<^verbatim>\<open>stroke\<close> is \<^verbatim>\<open>none\<close>.
\<close>

theorem path_elements_filled_strokeless:
  assumes "e \<in> set (children (svg_tree fmt path w h))"
  shows "tag e = Tag ''path''
         \<and> map_of (attrib e) ''fill'' = Some ''black''
         \<and> map_of (attrib e) ''stroke'' = Some ''none''
         \<and> map fst (attrib e) = [''d'', ''fill'', ''stroke'']
         \<and> children e = []"
  using assms by (auto simp: svg_tree_def path_elem_def)

theorem path_elements_filled_strokeless_witness:
  "path_elem str_nat \<lparr>start_point = (1, 2), segments = [Corner (3, 4) (5, 6)]\<rparr>
     \<in> set (children (svg_tree str_nat [\<lparr>start_point = (1, 2), segments = [Corner (3, 4) (5, 6)]\<rparr>] 20 30))
   \<and> map_of (attrib (path_elem str_nat \<lparr>start_point = (1, 2), segments = [Corner (3, 4) (5, 6)]\<rparr>))
        ''fill'' = Some ''black''
   \<and> map_of (attrib (path_elem str_nat \<lparr>start_point = (1, 2), segments = [Corner (3, 4) (5, 6)]\<rparr>))
        ''stroke'' = Some ''none''"
proof -
  let ?cv = "\<lparr>start_point = (1, 2), segments = [Corner (3, 4) (5, 6)]\<rparr> :: nat curve"
  have m: "path_elem str_nat ?cv \<in> set (children (svg_tree str_nat [?cv] 20 30))"
    by (simp add: svg_tree_def)
  from path_elements_filled_strokeless [OF m] m show ?thesis by simp
qed

subsection \<open>Serializing what the builder makes\<close>









lemma qname_plain: "split_qname n = None \<Longrightarrow> qname namespaces n = n"
  by (simp add: qname_def)

lemma serialize_path_elem:
  \<open>serialize_xml [] [] (path_elem fmt cv) =
     ''<path d="'' @ escape_attrib (join '' '' (path_data fmt cv))
     @ ''" fill="black" stroke="none" />''\<close>
proof -
  have q: "qname [] ''path'' = ''path''" "qname [] ''d'' = ''d''" "qname [] ''fill'' = ''fill''"
    "qname [] ''stroke'' = ''stroke''"
    by (simp_all add: qname_plain split_qname_def)
  have e: "escape_attrib ''black'' = ''black''" "escape_attrib ''none'' = ''none''"
    by (simp_all add: escape_attrib_def)
  show ?thesis
    by (simp add: path_elem_def write_attrib_def write_text_def q e)
qed



subsection \<open>A raster without foreground\<close>


lemma cli_bitmap_bits:
  "cli_bitmap img threshold False = map (\<lambda>x. \<not> uint x > threshold) (pixels img)"
  by (simp add: cli_bitmap_def pbm_bits_def binarize_def point_def threshold_lut_def)

text \<open>The two backends hand their tracers complementary bitmaps.\<close>

lemma backends_trace_complements:
  "cli_bitmap img threshold invert = map Not (pypotrace_bitmap img threshold invert)"
  by (simp add: cli_bitmap_def pypotrace_bitmap_def pbm_bits_def np_array_bool_def)




subsection \<open>What the parser builds\<close>

lemma has_comment_set_tail [simp]: "has_comment (set_tail v e) = has_comment e"
  by (cases e) simp

lemma tail_set_tail [simp]: "tail (set_tail v e) = v"
  by (cases e) simp

lemma children_set_tail [simp]: "children (set_tail v e) = children e"
  by (cases e) simp

lemma set_tail_set_tail [simp]: "set_tail v (set_tail u e) = set_tail v e"
  by (cases e) simp

lemma set_tail_id [simp]: "set_tail (tail e) e = e"
  by (cases e) simp

lemma list_ex_set_last_tail [simp]:
  "list_ex has_comment (set_last_tail v cs) = list_ex has_comment cs"
proof (cases "cs = []")
  case True
  then show ?thesis by (simp add: set_last_tail_def)
next
  case False
  then obtain xs x where "cs = xs @ [x]" by (metis append_butlast_last_id)
  then show ?thesis by (simp add: set_last_tail_def)
qed

lemma flush_ok: "list_all frame_ok st \<Longrightarrow> list_all frame_ok (flush st pending ae)"
  by (induction st pending ae rule: flush.induct) simp_all

text \<open>The builder never puts a comment node into the tree, and the root it returns has
  no tail: by induction on the events, for every state of the builder.\<close>

lemma build_ok:
  "build evs st pending ae root = Inr r \<Longrightarrow> list_all frame_ok st \<Longrightarrow> root_ok root
     \<Longrightarrow> \<not> has_comment r \<and> tail r = None"
proof (induction evs arbitrary: st pending ae root)
  case Nil
  then show ?case by (auto simp: root_ok_def split: option.splits if_splits)
next
  case (Cons ev evs)
  show ?case
  proof (cases ev)
    case (CommentEv c)
    with Cons show ?thesis by simp
  next
    case (Data d)
    with Cons show ?thesis by (auto split: if_splits)
  next
    case (Start name attrs)
    with Cons.prems obtain t a where
      b: "build evs (Frame name t a None [] (List.map_filter ns_decl attrs @ scope st)
            # flush st pending ae) [] False root = Inr r"
      by (auto simp: Let_def split: if_splits sum.splits)
    have "list_all frame_ok (Frame name t a None [] (List.map_filter ns_decl attrs @ scope st)
        # flush st pending ae)"
      using Cons.prems(2) by (simp add: flush_ok)
    from Cons.IH [OF b this Cons.prems(3)] show ?thesis .
  next
    case (End name)
    from Cons.prems(2) have fo: "list_all frame_ok (flush st pending ae)" by (rule flush_ok)
    from End Cons.prems(1) obtain rn t a tx cs env rest where
      fl: "flush st pending ae = Frame rn t a tx cs env # rest" and nm: "rn = name"
      by (auto split: list.splits frame.splits if_splits)
    show ?thesis
    proof (cases rest)
      case Nil
      with End Cons.prems(1) fl nm have
        b: "build evs [] [] True (Some (Element (Tag t) a tx None cs)) = Inr r" by simp
      have "root_ok (Some (Element (Tag t) a tx None cs))"
        using fo fl by (simp add: root_ok_def)
      from Cons.IH [OF b _ this] show ?thesis by simp
    next
      case (Cons f rest')
      obtain rn' t' a' tx' cs' env' where f: "f = Frame rn' t' a' tx' cs' env'" by (cases f)
      with End Cons.prems(1) fl nm Cons have
        b: "build evs (Frame rn' t' a' tx' (cs' @ [Element (Tag t) a tx None cs]) env' # rest')
              [] True root = Inr r"
        by simp
      have "list_all frame_ok (Frame rn' t' a' tx' (cs' @ [Element (Tag t) a tx None cs]) env'
          # rest')"
        using fo fl Cons f by simp
      from Cons.IH [OF b this Cons.prems(3)] show ?thesis .
    qed
  qed
qed

lemma fromstring_ok: "fromstring s = Inr r \<Longrightarrow> \<not> has_comment r \<and> tail r = None"
  by (auto simp: fromstring_def root_ok_def split: sum.splits dest!: build_ok)

subsection \<open>The removal loop\<close>

lemma remove_loop_clean: "\<not> list_ex has_comment cs \<Longrightarrow> remove_loop cs = Inr cs"
proof (induction cs rule: remove_loop.induct)
  case 1
  then show ?case by simp
next
  case (2 c)
  then show ?case by (cases c) simp
next
  case (3 c d ds)
  then show ?case by (cases c) simp
qed

lemma remove_comments_clean: "\<not> has_comment root \<Longrightarrow> remove_comments root = Inr root"
  by (cases root) (simp add: remove_comments_def remove_loop_clean)

text \<open>On a tree that did hold a comment node below a child, the loop would raise.\<close>

lemma remove_comments_nested:
  "remove_comments (Element (Tag ''svg'') [] None None
      [Element (Tag ''g'') [] None None [Element CommentTag [] (Some ''n'') None []]])
     = Inl ValueError"
  by (simp add: remove_comments_def)

subsection \<open>Indentation\<close>

lemma is_space_blank [simp]: "is_space (CHR '' '')" "is_space (CHR 0x0A)"
  by (simp_all add: is_space_def)

lemma blank_indent_str [simp]: "list_all is_space (indent_str l)"
proof -
  have "list_all is_space (concat (replicate l ''  ''))"
    by (induction l) simp_all
  then show ?thesis by (simp add: indent_str_def)
qed

lemma retail_last_snoc: "retail_last ind (xs @ [x]) = xs @ [fix_tail ind x]"
  by (simp add: retail_last_def fix_tail_def)

lemma retail_last_Nil_iff [simp]: "retail_last ind cs = [] \<longleftrightarrow> cs = []"
  by (simp add: retail_last_def)



lemma children_indent_xml_Nil [simp]: "children (indent_xml e l) = [] \<longleftrightarrow> children e = []"
  by (cases e) auto



lemma has_comment_indent_xml: "has_comment (indent_xml e l) = has_comment e"
proof (induction e l rule: indent_xml.induct)
  case (1 t a tx ta cs level)
  show ?case
  proof (cases "cs = []")
    case True
    then show ?thesis by simp
  next
    case False
    then obtain xs c where cs: "cs = xs @ [c]" by (metis append_butlast_last_id)
    have ih: "\<And>x. x \<in> set cs \<Longrightarrow> has_comment (indent_xml x (level + 1)) = has_comment x"
      using 1 False by simp
    have "list_ex has_comment
        (retail_last (indent_str level) (map (\<lambda>c. indent_xml c (level + 1)) cs))
          = list_ex has_comment cs"
      using ih by (simp add: cs retail_last_snoc fix_tail_def list_ex_iff)
    then show ?thesis using False by simp
  qed
qed

subsection \<open>The optimizer\<close>

text \<open>With scour present the result is scour's own.\<close>

lemma optimize_svg_scour: "optimize_svg (Some f) s = f s"
  by (simp add: optimize_svg_def)

text \<open>
  C10, as stated, at one document: the comment lies inside the child \<^verbatim>\<open>g\<close>, not
  directly below the root, and the fallback optimizer still returns an optimized
  document without it; \<^verbatim>\<open>root.remove\<close> is not called and nothing is raised.
\<close>

theorem nested_comment_counterexample:
  \<open>optimize_svg None
      ''<svg xmlns="http://www.w3.org/2000/svg" width="2" height="2"><g><!-- note --></g></svg>''
    = Inr ''<ns0:svg xmlns:ns0="http://www.w3.org/2000/svg" width="2" height="2">\<newline>  <ns0:g />\<newline></ns0:svg>\<newline>''\<close>
  by code_simp

text \<open>
  C10, amended: without scour, \<^verbatim>\<open>optimize_svg\<close> never ends in the \<^verbatim>\<open>ValueError\<close> of
  \<^verbatim>\<open>root.remove\<close>. Whenever the document parses, the tree holds no comment node
  wherever the comments of the document were, the loop leaves the tree as it is, the
  indented tree is returned serialized, and it holds no comment node either.
\<close>

theorem fallback_never_calls_remove:
  "optimize_svg None s \<noteq> Inl ValueError
   \<and> (fromstring s = Inr root \<longrightarrow>
        \<not> has_comment root \<and> remove_comments root = Inr root
        \<and> optimize_svg None s = Inr (tostring (indent_xml root 0))
        \<and> \<not> has_comment (indent_xml root 0))"
proof -
  have a: "optimize_svg None s \<noteq> Inl ValueError"
  proof (cases "fromstring s")
    case (Inl e)
    then show ?thesis by (simp add: optimize_svg_def basic_svg_optimization_def)
  next
    case (Inr r)
    then have "remove_comments r = Inr r"
      using fromstring_ok remove_comments_clean by blast
    with Inr show ?thesis by (simp add: optimize_svg_def basic_svg_optimization_def)
  qed
  have b: "\<not> has_comment root \<and> remove_comments root = Inr root
        \<and> optimize_svg None s = Inr (tostring (indent_xml root 0))
        \<and> \<not> has_comment (indent_xml root 0)" if p: "fromstring s = Inr root"
  proof -
    from p have c: "\<not> has_comment root" using fromstring_ok by blast
    then have r: "remove_comments root = Inr root" by (rule remove_comments_clean)
    from p r have "optimize_svg None s = Inr (tostring (indent_xml root 0))"
      by (simp add: optimize_svg_def basic_svg_optimization_def)
    with c r show ?thesis by (simp add: has_comment_indent_xml)
  qed
  from a b show ?thesis by blast
qed

theorem fallback_never_calls_remove_witness:
  \<open>optimize_svg None ''<svg width="2"><g><!-- note --><path d="M 0,0 Z"/></g></svg>'' \<noteq> Inl ValueError
   \<and> fromstring ''<svg width="2"><g><!-- note --><path d="M 0,0 Z"/></g></svg>''
       = Inr (Element (Tag ''svg'') [(''width'', ''2'')] None None
           [Element (Tag ''g'') [] None None
             [Element (Tag ''path'') [(''d'', ''M 0,0 Z'')] None None []]])
   \<and> optimize_svg None ''<svg width="2"><g><!-- note --><path d="M 0,0 Z"/></g></svg>''
       = Inr ''<svg width="2">\<newline>  <g>\<newline>    <path d="M 0,0 Z" />\<newline>  </g>\<newline></svg>\<newline>''\<close>
proof -
  let ?s = \<open>''<svg width="2"><g><!-- note --><path d="M 0,0 Z"/></g></svg>''\<close>
  let ?root = "Element (Tag ''svg'') [(''width'', ''2'')] None None
           [Element (Tag ''g'') [] None None
             [Element (Tag ''path'') [(''d'', ''M 0,0 Z'')] None None []]]"
  have p: "fromstring ?s = Inr ?root"
    by code_simp
  have o: \<open>tostring (indent_xml ?root 0)
      = ''<svg width="2">\<newline>  <g>\<newline>    <path d="M 0,0 Z" />\<newline>  </g>\<newline></svg>\<newline>''\<close>
    by code_simp
  from fallback_never_calls_remove [of ?s ?root] p o show ?thesis
    by simp
qed




end
